theory Spec2Isabelle
  imports Main
begin

section \<open>Python values, exceptions and the clock\<close>

text \<open>
  The journal (\<^verbatim>\<open>journal.py\<close>) keeps entries whose attributes are whatever Python
  values the caller or \<^verbatim>\<open>json.loads\<close> hands to the constructor, so the attributes are
  modelled as dynamically typed values: the JSON-shaped fragment of Python's values.
  A \<^verbatim>\<open>dict\<close> is an association list in insertion order. Floats do not occur in what
  the program builds (ratings come from \<^verbatim>\<open>int(input())\<close>) and are left out.
\<close>

datatype pyval =
    PNone
  | PBool bool
  | PInt int
  | PStr string
  | PList "pyval list"
  | PDict "(string \<times> pyval) list"

text \<open>
  The exception classes that the modelled statements can raise. All of them derive from
  Python's \<^verbatim>\<open>Exception\<close>, which is what the two handlers of the store catch.
\<close>

datatype exn =
    TypeError
  | ValueError
  | OSError
  | InvalidToken
  | JSONDecodeError
  | UnicodeError

text \<open>Truth value of a Python object, as used by \<^verbatim>\<open>tags if tags else []\<close>.\<close>

fun truthy :: "pyval \<Rightarrow> bool" where
  "truthy PNone = False"
| "truthy (PBool b) = b"
| "truthy (PInt i) = (i \<noteq> 0)"
| "truthy (PStr s) = (s \<noteq> [])"
| "truthy (PList xs) = (xs \<noteq> [])"
| "truthy (PDict kvs) = (kvs \<noteq> [])"

text \<open>
  Iterating a value in a comprehension (\<^verbatim>\<open>for entry in data\<close>): a list yields its
  elements, a dict its keys, a string its characters; the other values are not iterable.
\<close>

fun py_iter :: "pyval \<Rightarrow> exn + pyval list" where
  "py_iter (PList xs) = Inr xs"
| "py_iter (PDict kvs) = Inr (map (\<lambda>kv. PStr (fst kv)) kvs)"
| "py_iter (PStr s) = Inr (map (\<lambda>c. PStr [c]) s)"
| "py_iter PNone = Inl TypeError"
| "py_iter (PBool b) = Inl TypeError"
| "py_iter (PInt i) = Inl TypeError"

text \<open>A reading of \<^verbatim>\<open>datetime.now()\<close>.\<close>

record datetime =
  year :: nat
  month :: nat
  day :: nat
  hour :: nat
  minute :: nat
  second :: nat

definition is_leap :: "nat \<Rightarrow> bool" where
  "is_leap y = (y mod 4 = 0 \<and> (y mod 100 \<noteq> 0 \<or> y mod 400 = 0))"

definition days_in_month :: "nat \<Rightarrow> nat \<Rightarrow> nat" where
  "days_in_month y m =
     (if m = 2 then (if is_leap y then 29 else 28)
      else if m = 4 \<or> m = 6 \<or> m = 9 \<or> m = 11 then 30
      else 31)"

text \<open>
  The datetimes that \<^verbatim>\<open>datetime.now()\<close> can return whose year prints with four
  digits (\<^verbatim>\<open>%Y\<close> pads a year below 1000 differently from platform to platform).
\<close>

definition valid_datetime :: "datetime \<Rightarrow> bool" where
  "valid_datetime t =
     (1000 \<le> year t \<and> year t \<le> 9999 \<and> 1 \<le> month t \<and> month t \<le> 12 \<and>
      1 \<le> day t \<and> day t \<le> days_in_month (year t) (month t) \<and>
      hour t < 24 \<and> minute t < 60 \<and> second t < 60)"

definition digit_char :: "nat \<Rightarrow> char" where
  "digit_char n = ''0123456789'' ! n"

definition pad2 :: "nat \<Rightarrow> string" where
  "pad2 n = [digit_char (n div 10 mod 10), digit_char (n mod 10)]"

definition pad4 :: "nat \<Rightarrow> string" where
  "pad4 n = [digit_char (n div 1000 mod 10), digit_char (n div 100 mod 10),
             digit_char (n div 10 mod 10), digit_char (n mod 10)]"

text \<open>\<^verbatim>\<open>strftime("%Y-%m-%d %H:%M:%S")\<close>.\<close>

definition strftime :: "datetime \<Rightarrow> string" where
  "strftime t =
     pad4 (year t) @ ''-'' @ pad2 (month t) @ ''-'' @ pad2 (day t) @ '' '' @
     pad2 (hour t) @ '':'' @ pad2 (minute t) @ '':'' @ pad2 (second t)"

text \<open>
  \<^verbatim>\<open>datetime.strptime(s, "%Y-%m-%d")\<close>. The standard library matches the pattern
  \<^verbatim>\<open>(\d\d\d\d)-(1[0-2]|0[1-9]|[1-9])-(3[01]|[12]\d|0[1-9]|[1-9]| [1-9])\<close> against the whole
  string and then builds the date, so a year 0 or a day beyond the month's length is
  refused too. \<open>None\<close> stands for the \<^verbatim>\<open>ValueError\<close>. The result is the calendar date
  (the time of day of the parsed value is midnight).
\<close>

type_synonym cdate = "nat \<times> nat \<times> nat"

definition is_digit :: "char \<Rightarrow> bool" where
  "is_digit c = (48 \<le> (of_char c :: nat) \<and> (of_char c :: nat) \<le> 57)"

definition digit_val :: "char \<Rightarrow> nat" where
  "digit_val c = of_char c - 48"

fun month_token :: "string \<Rightarrow> nat option" where
  "month_token [a] =
     (if is_digit a \<and> a \<noteq> CHR ''0'' then Some (digit_val a) else None)"
| "month_token [a, b] =
     (if a = CHR ''1'' \<and> is_digit b \<and> digit_val b \<le> 2 then Some (10 + digit_val b)
      else if a = CHR ''0'' \<and> is_digit b \<and> b \<noteq> CHR ''0'' then Some (digit_val b)
      else None)"
| "month_token s = None"

fun day_token :: "string \<Rightarrow> nat option" where
  "day_token [a] =
     (if is_digit a \<and> a \<noteq> CHR ''0'' then Some (digit_val a) else None)"
| "day_token [a, b] =
     (if a = CHR ''3'' \<and> is_digit b \<and> digit_val b \<le> 1 then Some (30 + digit_val b)
      else if (a = CHR ''1'' \<or> a = CHR ''2'') \<and> is_digit b
        then Some (10 * digit_val a + digit_val b)
      else if (a = CHR ''0'' \<or> a = CHR '' '') \<and> is_digit b \<and> b \<noteq> CHR ''0''
        then Some (digit_val b)
      else None)"
| "day_token s = None"

definition strptime_ymd :: "string \<Rightarrow> cdate option" where
  "strptime_ymd s =
     (case s of
        y1 # y2 # y3 # y4 # d1 # rest \<Rightarrow>
          if is_digit y1 \<and> is_digit y2 \<and> is_digit y3 \<and> is_digit y4 \<and> d1 = CHR ''-''
          then
            (let mtok = takeWhile (\<lambda>c. c \<noteq> CHR ''-'') rest;
                 after = dropWhile (\<lambda>c. c \<noteq> CHR ''-'') rest;
                 y = 1000 * digit_val y1 + 100 * digit_val y2 + 10 * digit_val y3 + digit_val y4
             in case after of
                  [] \<Rightarrow> None
                | d2 # dtok \<Rightarrow>
                    (case (month_token mtok, day_token dtok) of
                       (Some m, Some d) \<Rightarrow>
                         if 1 \<le> y \<and> d \<le> days_in_month y m then Some (y, m, d) else None
                     | _ \<Rightarrow> None))
          else None
      | _ \<Rightarrow> None)"

text \<open>Comparison of two parsed dates (\<^verbatim>\<open><=\<close> on \<^verbatim>\<open>datetime\<close>).\<close>

fun date_le :: "cdate \<Rightarrow> cdate \<Rightarrow> bool" where
  "date_le (y1, m1, d1) (y2, m2, d2) =
     (y1 < y2 \<or> (y1 = y2 \<and> (m1 < m2 \<or> (m1 = m2 \<and> d1 \<le> d2))))"

section \<open>JournalEntry\<close>

record JournalEntry =
  title :: pyval
  content :: pyval
  mood :: pyval
  mood_rating :: pyval
  tags :: pyval
  completed_tasks :: pyval
  forgettable_thing :: pyval
  date :: string

text \<open>
  \<^verbatim>\<open>JournalEntry.__init__\<close>. The first argument is the clock reading that
  \<^verbatim>\<open>datetime.now()\<close> returns inside the constructor; an omitted optional argument is
  \<open>PNone\<close>, its default.
\<close>

definition JournalEntry_init ::
  "datetime \<Rightarrow> pyval \<Rightarrow> pyval \<Rightarrow> pyval \<Rightarrow> pyval \<Rightarrow> pyval \<Rightarrow> pyval \<Rightarrow> pyval \<Rightarrow> JournalEntry" where
  "JournalEntry_init now title' content' mood' mood_rating' tags' completed_tasks' forgettable_thing' =
     \<lparr> title = title',
       content = content',
       mood = mood',
       mood_rating = mood_rating',
       tags = (if truthy tags' then tags' else PList []),
       completed_tasks = (if truthy completed_tasks' then completed_tasks' else PList []),
       forgettable_thing = forgettable_thing',
       date = strftime now \<rparr>"

text \<open>\<^verbatim>\<open>JournalEntry.to_dict\<close>: the dict literal, in its order.\<close>

definition to_dict :: "JournalEntry \<Rightarrow> (string \<times> pyval) list" where
  "to_dict e =
     [(''title'', title e),
      (''content'', content e),
      (''mood'', mood e),
      (''mood_rating'', mood_rating e),
      (''tags'', tags e),
      (''completed_tasks'', completed_tasks e),
      (''forgettable_thing'', forgettable_thing e),
      (''date'', PStr (date e))]"

text \<open>
  The call \<^verbatim>\<open>JournalEntry(**entry)\<close> of \<^verbatim>\<open>load_entries\<close>: \<^verbatim>\<open>entry\<close> must be a
  mapping, each of its keys must name a parameter of \<^verbatim>\<open>__init__\<close>, and the four
  parameters without a default must be present; otherwise the call raises
  \<^verbatim>\<open>TypeError\<close>.
\<close>

definition init_params :: "string list" where
  "init_params = [''title'', ''content'', ''mood'', ''mood_rating'', ''tags'',
                  ''completed_tasks'', ''forgettable_thing'']"

definition kwarg_or_default :: "(string \<times> pyval) list \<Rightarrow> string \<Rightarrow> pyval" where
  "kwarg_or_default kw k = (case map_of kw k of None \<Rightarrow> PNone | Some v \<Rightarrow> v)"

definition JournalEntry_kwargs :: "datetime \<Rightarrow> pyval \<Rightarrow> exn + JournalEntry" where
  "JournalEntry_kwargs now entry =
     (case entry of
        PDict kw \<Rightarrow>
          if list_ex (\<lambda>k. k \<notin> set init_params) (map fst kw) then Inl TypeError
          else
            (case (map_of kw ''title'', map_of kw ''content'', map_of kw ''mood'',
                   map_of kw ''mood_rating'') of
               (Some t, Some c, Some m, Some r) \<Rightarrow>
                 Inr (JournalEntry_init now t c m r
                        (kwarg_or_default kw ''tags'')
                        (kwarg_or_default kw ''completed_tasks'')
                        (kwarg_or_default kw ''forgettable_thing''))
             | _ \<Rightarrow> Inl TypeError)
      | _ \<Rightarrow> Inl TypeError)"

text \<open>
  The comprehension \<^verbatim>\<open>[JournalEntry(**entry) for entry in data]\<close> over the items of
  \<^verbatim>\<open>data\<close>: the constructor calls run in order, the \<open>n\<close>-th one reading the clock
  \<open>clk n\<close>, and the first exception ends the comprehension.
\<close>

fun build_entries :: "(nat \<Rightarrow> datetime) \<Rightarrow> nat \<Rightarrow> pyval list \<Rightarrow> exn + JournalEntry list" where
  "build_entries clk n [] = Inr []"
| "build_entries clk n (x # xs) =
     (case JournalEntry_kwargs (clk n) x of
        Inl e \<Rightarrow> Inl e
      | Inr en \<Rightarrow>
          (case build_entries clk (Suc n) xs of
             Inl e \<Rightarrow> Inl e
           | Inr ens \<Rightarrow> Inr (en # ens)))"

section \<open>The libraries and the file system\<close>

text \<open>
  \<^verbatim>\<open>cryptography.fernet\<close> and \<^verbatim>\<open>json\<close> are not part of the program; their functions
  are parameters of the model. \<open>Fernet_accepts k\<close> says that \<^verbatim>\<open>Fernet(k)\<close> returns
  (it raises \<^verbatim>\<open>ValueError\<close> on anything but the encoding of a 32-byte key);
  \<open>generate_key\<close> and \<open>encrypt\<close> take the random bits they draw as a number;
  \<open>encrypt k r s\<close> is \<^verbatim>\<open>Fernet(k).encrypt(s.encode()).decode()\<close> and \<open>decrypt k s\<close> is
  \<^verbatim>\<open>Fernet(k).decrypt(s.encode()).decode()\<close>, each with the exceptions it may raise.
\<close>

record library =
  Fernet_accepts :: "string \<Rightarrow> bool"
  generate_key :: "nat \<Rightarrow> string"
  encrypt :: "string \<Rightarrow> nat \<Rightarrow> string \<Rightarrow> exn + string"
  decrypt :: "string \<Rightarrow> string \<Rightarrow> exn + string"
  json_dumps :: "pyval \<Rightarrow> exn + string"
  json_loads :: "string \<Rightarrow> exn + pyval"

text \<open>
  What \<^verbatim>\<open>open(path, 'w')\<close> followed by \<^verbatim>\<open>write\<close> does for a path: it works, or
  \<^verbatim>\<open>open\<close> is refused (the file is untouched), or the file is created or truncated and
  the write fails after some of the characters (a full disk).
\<close>

datatype write_fault = No_fault | Open_denied | Write_fails nat

text \<open>
  The world outside the process: the files by path, the paths that cannot be opened for
  reading, what a write to each path does, a counter for the random bits drawn so far,
  and the lines printed.
\<close>

text \<open>A line that the store prints: \<^verbatim>\<open>Error loading journal: ...\<close> or \<^verbatim>\<open>Error saving journal: ...\<close>.\<close>

datatype line = Error_loading_journal exn | Error_saving_journal exn

record world =
  files :: "string \<Rightarrow> string option"
  read_denied :: "string \<Rightarrow> bool"
  write_faults :: "string \<Rightarrow> write_fault"
  entropy :: nat
  stdout :: "line list"

definition path_exists :: "world \<Rightarrow> string \<Rightarrow> bool" where
  "path_exists w p = (files w p \<noteq> None)"

text \<open>\<^verbatim>\<open>with open(p, 'r') as f: f.read()\<close> (and the same in binary mode).\<close>

definition read_file :: "world \<Rightarrow> string \<Rightarrow> exn + string" where
  "read_file w p =
     (if read_denied w p then Inl OSError
      else case files w p of None \<Rightarrow> Inl OSError | Some c \<Rightarrow> Inr c)"

text \<open>
  \<^verbatim>\<open>with open(p, 'w') as f: f.write(s)\<close>: the world afterwards and the exception
  raised, if any.
\<close>

definition write_file :: "world \<Rightarrow> string \<Rightarrow> string \<Rightarrow> world \<times> exn option" where
  "write_file w p s =
     (case write_faults w p of
        No_fault \<Rightarrow> (w\<lparr>files := (files w)(p \<mapsto> s)\<rparr>, None)
      | Open_denied \<Rightarrow> (w, Some OSError)
      | Write_fails n \<Rightarrow> (w\<lparr>files := (files w)(p \<mapsto> take n s)\<rparr>, Some OSError))"

definition print_line :: "world \<Rightarrow> line \<Rightarrow> world" where
  "print_line w l = w\<lparr>stdout := stdout w @ [l]\<rparr>"

section \<open>JournalManager\<close>

text \<open>
  The manager's attributes. \<^verbatim>\<open>self.cipher\<close> is \<^verbatim>\<open>Fernet(self.key)\<close>, determined by
  the key, so it has no field of its own.
\<close>

record JournalManager =
  username :: string
  filename :: string
  key :: string
  entries :: "JournalEntry list"

definition key_file_of :: "string \<Rightarrow> string" where
  "key_file_of u = ''key_'' @ u @ ''.key''"

definition filename_of :: "string \<Rightarrow> string" where
  "filename_of u = ''journal_'' @ u @ ''.json''"

definition backup_file_of :: "string \<Rightarrow> string" where
  "backup_file_of f = ''backup_'' @ f"

text \<open>\<^verbatim>\<open>_get_or_create_key\<close>: the world afterwards, and the key or the exception.\<close>

definition get_or_create_key :: "library \<Rightarrow> string \<Rightarrow> world \<Rightarrow> world \<times> (exn + string)" where
  "get_or_create_key L u w =
     (if path_exists w (key_file_of u) then (w, read_file w (key_file_of u))
      else
        (let k = generate_key L (entropy w);
             w1 = w\<lparr>entropy := Suc (entropy w)\<rparr>
         in case write_file w1 (key_file_of u) k of
              (w2, Some e) \<Rightarrow> (w2, Inl e)
            | (w2, None) \<Rightarrow> (w2, Inr k)))"

text \<open>The body of the \<^verbatim>\<open>try\<close> of \<^verbatim>\<open>load_entries\<close>: the new value of \<^verbatim>\<open>self.entries\<close>, or the exception.\<close>

definition load_body ::
  "library \<Rightarrow> (nat \<Rightarrow> datetime) \<Rightarrow> JournalManager \<Rightarrow> world \<Rightarrow> exn + JournalEntry list" where
  "load_body L clk m w =
     (if path_exists w (filename m) then
        (case read_file w (filename m) of
           Inl e \<Rightarrow> Inl e
         | Inr encrypted_data \<Rightarrow>
             if encrypted_data \<noteq> [] then
               (case decrypt L (key m) encrypted_data of
                  Inl e \<Rightarrow> Inl e
                | Inr decrypted_data \<Rightarrow>
                    (case json_loads L decrypted_data of
                       Inl e \<Rightarrow> Inl e
                     | Inr data \<Rightarrow>
                         (case py_iter data of
                            Inl e \<Rightarrow> Inl e
                          | Inr items \<Rightarrow> build_entries clk 0 items)))
             else Inr [])
      else Inr (entries m))"

text \<open>\<^verbatim>\<open>load_entries\<close>: the handler catches every exception of the body.\<close>

definition load_entries ::
  "library \<Rightarrow> (nat \<Rightarrow> datetime) \<Rightarrow> JournalManager \<Rightarrow> world \<Rightarrow> JournalManager \<times> world" where
  "load_entries L clk m w =
     (case load_body L clk m w of
        Inr es \<Rightarrow> (m\<lparr>entries := es\<rparr>, w)
      | Inl e \<Rightarrow> (m\<lparr>entries := []\<rparr>, print_line w (Error_loading_journal e)))"

text \<open>
  \<^verbatim>\<open>JournalManager.__init__\<close>. Neither the key step nor \<^verbatim>\<open>Fernet(self.key)\<close> stands
  in a \<^verbatim>\<open>try\<close>: their exceptions leave the constructor.
\<close>

definition JournalManager_init ::
  "library \<Rightarrow> (nat \<Rightarrow> datetime) \<Rightarrow> string \<Rightarrow> world \<Rightarrow> world \<times> (exn + JournalManager)" where
  "JournalManager_init L clk u w =
     (case get_or_create_key L u w of
        (w1, Inl e) \<Rightarrow> (w1, Inl e)
      | (w1, Inr k) \<Rightarrow>
          if Fernet_accepts L k then
            (case load_entries L clk
                    \<lparr>username = u, filename = filename_of u, key = k, entries = []\<rparr> w1 of
               (m, w2) \<Rightarrow> (w2, Inr m))
          else (w1, Inl ValueError))"

text \<open>
  The two lines of \<^verbatim>\<open>main\<close> that open the store, \<^verbatim>\<open>journal_manager = JournalManager(username)\<close>
  and \<^verbatim>\<open>main_menu(journal_manager)\<close>: \<^verbatim>\<open>main\<close> has no handler around them, so an
  exception of the constructor ends the process.
\<close>

datatype session = Crashed exn | Menu JournalManager

definition main_open :: "library \<Rightarrow> (nat \<Rightarrow> datetime) \<Rightarrow> string \<Rightarrow> world \<Rightarrow> world \<times> session" where
  "main_open L clk u w =
     (case JournalManager_init L clk u w of
        (w1, Inl e) \<Rightarrow> (w1, Crashed e)
      | (w1, Inr m) \<Rightarrow> (w1, Menu m))"

text \<open>The JSON document that \<^verbatim>\<open>save_entries\<close> serialises.\<close>

definition records :: "JournalEntry list \<Rightarrow> pyval" where
  "records es = PList (map (\<lambda>e. PDict (to_dict e)) es)"

text \<open>
  The body of the \<^verbatim>\<open>try\<close> of \<^verbatim>\<open>save_entries\<close>, statement by statement: the world
  afterwards and the exception that ended it, if any.
\<close>

definition save_body :: "library \<Rightarrow> JournalManager \<Rightarrow> world \<Rightarrow> world \<times> exn option" where
  "save_body L m w =
     (case json_dumps L (records (entries m)) of
        Inl e \<Rightarrow> (w, Some e)
      | Inr data \<Rightarrow>
          (case encrypt L (key m) (entropy w) data of
             Inl e \<Rightarrow> (w, Some e)
           | Inr encrypted_data \<Rightarrow>
               (case write_file (w\<lparr>entropy := Suc (entropy w)\<rparr>) (filename m) encrypted_data of
                  (w1, Some e) \<Rightarrow> (w1, Some e)
                | (w1, None) \<Rightarrow> write_file w1 (backup_file_of (filename m)) encrypted_data)))"

definition save_entries :: "library \<Rightarrow> JournalManager \<Rightarrow> world \<Rightarrow> world" where
  "save_entries L m w =
     (case save_body L m w of
        (w1, None) \<Rightarrow> w1
      | (w1, Some e) \<Rightarrow> print_line w1 (Error_saving_journal e))"

text \<open>\<^verbatim>\<open>add_entry\<close> returns nothing.\<close>

definition add_entry ::
  "library \<Rightarrow> JournalManager \<Rightarrow> world \<Rightarrow> JournalEntry \<Rightarrow> JournalManager \<times> world" where
  "add_entry L m w entry =
     (let m1 = m\<lparr>entries := entries m @ [entry]\<rparr> in (m1, save_entries L m1 w))"

text \<open>\<^verbatim>\<open>edit_entry\<close> and \<^verbatim>\<open>delete_entry\<close>: the state afterwards and the returned boolean.\<close>

definition edit_entry ::
  "library \<Rightarrow> JournalManager \<Rightarrow> world \<Rightarrow> int \<Rightarrow> JournalEntry \<Rightarrow> (JournalManager \<times> world) \<times> bool" where
  "edit_entry L m w index new_entry =
     (if 0 \<le> index \<and> index < int (length (entries m)) then
        (let m1 = m\<lparr>entries := (entries m)[nat index := new_entry]\<rparr>
         in ((m1, save_entries L m1 w), True))
      else ((m, w), False))"

definition delete_entry ::
  "library \<Rightarrow> JournalManager \<Rightarrow> world \<Rightarrow> int \<Rightarrow> (JournalManager \<times> world) \<times> bool" where
  "delete_entry L m w index =
     (if 0 \<le> index \<and> index < int (length (entries m)) then
        (let m1 = m\<lparr>entries := take (nat index) (entries m) @ drop (Suc (nat index)) (entries m)\<rparr>
         in ((m1, save_entries L m1 w), True))
      else ((m, w), False))"

text \<open>
  Choice 2 of \<^verbatim>\<open>search_entries\<close>. The comprehension parses the first ten characters
  of each entry's date in turn; a \<^verbatim>\<open>ValueError\<close> of any \<^verbatim>\<open>strptime\<close> call reaches the
  handler, which prints \<^verbatim>\<open>Invalid date format!\<close> and returns.
\<close>

fun date_filter :: "cdate \<Rightarrow> cdate \<Rightarrow> JournalEntry list \<Rightarrow> JournalEntry list option" where
  "date_filter s e [] = Some []"
| "date_filter s e (x # xs) =
     (case strptime_ymd (take 10 (date x)) of
        None \<Rightarrow> None
      | Some d \<Rightarrow>
          (case date_filter s e xs of
             None \<Rightarrow> None
           | Some found \<Rightarrow> Some (if date_le s d \<and> date_le d e then x # found else found)))"

datatype search_result = Invalid_date_format | No_matching_entries | Found "JournalEntry list"

definition search_by_date_range :: "JournalManager \<Rightarrow> string \<Rightarrow> string \<Rightarrow> search_result" where
  "search_by_date_range m start_date end_date =
     (case strptime_ymd start_date of
        None \<Rightarrow> Invalid_date_format
      | Some s \<Rightarrow>
          (case strptime_ymd end_date of
             None \<Rightarrow> Invalid_date_format
           | Some e \<Rightarrow>
               (case date_filter s e (entries m) of
                  None \<Rightarrow> Invalid_date_format
                | Some found \<Rightarrow> if found = [] then No_matching_entries else Found found)))"

section \<open>Properties as the specification words them\<close>

text \<open>
  The shape \<^verbatim>\<open>YYYY-MM-DD HH:MM:SS\<close> of a timestamp: nineteen characters, digits
  everywhere but at the two dashes, the blank and the two colons.
\<close>

definition timestamp_format :: "string \<Rightarrow> bool" where
  "timestamp_format s =
     (length s = 19 \<and> s ! 4 = CHR ''-'' \<and> s ! 7 = CHR ''-'' \<and> s ! 10 = CHR '' '' \<and>
      s ! 13 = CHR '':'' \<and> s ! 16 = CHR '':'' \<and>
      list_all (\<lambda>i. is_digit (s ! i)) [0, 1, 2, 3, 5, 6, 8, 9, 11, 12, 14, 15, 17, 18])"

text \<open>
  An entry lies in the range of a date query when the calendar-date portion of its
  date (the first ten characters) parses to a date between the two bounds, both
  included.
\<close>

definition in_date_range :: "cdate \<Rightarrow> cdate \<Rightarrow> JournalEntry \<Rightarrow> bool" where
  "in_date_range s e x =
     (case strptime_ymd (take 10 (date x)) of
        None \<Rightarrow> False
      | Some d \<Rightarrow> date_le s d \<and> date_le d e)"

section \<open>Concrete runs\<close>

text \<open>
  A small instance of the library interface, on which the model is run at concrete
  inputs. It keeps what the runs below rely on: a key that is not 44 characters long
  is refused; a token decrypts under the key that made it and is invalid under any
  other; the documents of the runs (the empty list and two one-entry lists) are dumped
  to their JSON text and that text parses back to them. The JSON functions are not
  used on other arguments.
\<close>

definition example_now :: datetime where
  "example_now = \<lparr>year = 2024, month = 3, day = 5, hour = 9, minute = 30, second = 0\<rparr>"

definition example_clock :: "nat \<Rightarrow> datetime" where
  "example_clock n = example_now"

definition example_entry :: JournalEntry where
  "example_entry =
     JournalEntry_init example_now (PStr ''A'') (PStr ''first day'') (PStr ''happy'') (PInt 8)
       PNone PNone PNone"

definition example_entry_B :: JournalEntry where
  "example_entry_B =
     JournalEntry_init (example_now\<lparr>day := 6\<rparr>) (PStr ''B'') (PStr ''second day'') (PStr ''sad'')
       (PInt 2) PNone PNone PNone"

definition example_json :: string where
  \<open>example_json =
     ''[{"title": "A", "content": "first day", "mood": "happy", "mood_rating": 8, '' @
     ''"tags": [], "completed_tasks": [], "forgettable_thing": null, '' @
     ''"date": "2024-03-05 09:30:00"}]''\<close>

definition example_json_B :: string where
  \<open>example_json_B =
     ''[{"title": "B", "content": "second day", "mood": "sad", "mood_rating": 2, '' @
     ''"tags": [], "completed_tasks": [], "forgettable_thing": null, '' @
     ''"date": "2024-03-06 09:30:00"}]''\<close>

definition example_key :: string where
  "example_key = replicate 43 (CHR ''A'') @ ''=''"

definition example_dumps :: "pyval \<Rightarrow> exn + string" where
  "example_dumps v =
     (if v = PList [] then Inr ''[]''
      else if v = records [example_entry] then Inr example_json
      else if v = records [example_entry_B] then Inr example_json_B
      else Inl TypeError)"

definition example_loads :: "string \<Rightarrow> exn + pyval" where
  "example_loads s =
     (if s = ''[]'' then Inr (PList [])
      else if s = example_json then Inr (records [example_entry])
      else if s = example_json_B then Inr (records [example_entry_B])
      else Inl JSONDecodeError)"

definition example_library :: library where
  "example_library =
     \<lparr> Fernet_accepts = (\<lambda>k. length k = 44),
       generate_key = (\<lambda>r. example_key),
       encrypt = (\<lambda>k r s. Inr (k @ s)),
       decrypt = (\<lambda>k c. if take (length k) c = k then Inr (drop (length k) c) else Inl InvalidToken),
       json_dumps = example_dumps,
       json_loads = example_loads \<rparr>"

definition empty_world :: world where
  "empty_world =
     \<lparr> files = (\<lambda>p. None), read_denied = (\<lambda>p. False), write_faults = (\<lambda>p. No_fault),
       entropy = 0, stdout = [] \<rparr>"

definition example_manager :: "JournalEntry list \<Rightarrow> JournalManager" where
  "example_manager es =
     \<lparr>username = ''u'', filename = filename_of ''u'', key = example_key, entries = es\<rparr>"

text \<open>Worlds for the runs: a directory that refuses every write, and three states of the files of user \<open>u\<close>.\<close>

definition read_only_world :: world where
  "read_only_world = empty_world\<lparr>write_faults := (\<lambda>p. Open_denied)\<rparr>"

definition corrupt_key_world :: world where
  "corrupt_key_world = empty_world\<lparr>files := [key_file_of ''u'' \<mapsto> ''not a key'']\<rparr>"

definition garbage_data_world :: world where
  "garbage_data_world =
     empty_world\<lparr>files := [key_file_of ''u'' \<mapsto> example_key, filename_of ''u'' \<mapsto> ''garbage'']\<rparr>"

definition empty_data_world :: world where
  "empty_data_world =
     empty_world\<lparr>files := [key_file_of ''u'' \<mapsto> example_key, filename_of ''u'' \<mapsto> []]\<rparr>"

text \<open>The key file of user \<open>u\<close> is there and cannot be opened for reading.\<close>

definition unreadable_key_world :: world where
  "unreadable_key_world =
     empty_world\<lparr>files := [key_file_of ''u'' \<mapsto> example_key],
                  read_denied := (\<lambda>p. p = key_file_of ''u'')\<rparr>"

section \<open>Dates: what the constructor prints, the search parses back\<close>

lemma lt10_cases: "k < 10 \<Longrightarrow> k = 0 \<or> k = 1 \<or> k = 2 \<or> k = 3 \<or> k = 4 \<or> k = 5 \<or> k = 6 \<or> k = 7 \<or> k = 8 \<or> k = (9::nat)"
  by arith

lemma digit_char_props:
  assumes "k < 10"
  shows "is_digit (digit_char k) \<and> digit_val (digit_char k) = k \<and> digit_char k \<noteq> CHR ''-''
     \<and> (digit_char k = CHR ''0'' \<longleftrightarrow> k = 0) \<and> (digit_char k = CHR ''1'' \<longleftrightarrow> k = 1)
     \<and> (digit_char k = CHR ''2'' \<longleftrightarrow> k = 2) \<and> (digit_char k = CHR ''3'' \<longleftrightarrow> k = 3)"
  using lt10_cases [OF assms]
  by (elim disjE) (simp_all add: digit_char_def is_digit_def digit_val_def)

lemma is_digit_digit_char: "k < 10 \<Longrightarrow> is_digit (digit_char k)"
  and digit_val_digit_char: "k < 10 \<Longrightarrow> digit_val (digit_char k) = k"
  and digit_char_not_dash: "k < 10 \<Longrightarrow> digit_char k \<noteq> CHR ''-''"
  and digit_char_eq_0: "k < 10 \<Longrightarrow> (digit_char k = CHR ''0'') = (k = 0)"
  and digit_char_eq_1: "k < 10 \<Longrightarrow> (digit_char k = CHR ''1'') = (k = 1)"
  and digit_char_eq_2: "k < 10 \<Longrightarrow> (digit_char k = CHR ''2'') = (k = 2)"
  and digit_char_eq_3: "k < 10 \<Longrightarrow> (digit_char k = CHR ''3'') = (k = 3)"
  using digit_char_props [of k] by simp_all

lemmas digit_simps = is_digit_digit_char digit_val_digit_char digit_char_not_dash
  digit_char_eq_0 digit_char_eq_1 digit_char_eq_2 digit_char_eq_3

lemma pad2_split: "n < 100 \<Longrightarrow> n div 10 = a \<Longrightarrow> pad2 n = [digit_char a, digit_char (n - 10 * a)]"
proof -
  assume n: "n < 100" and a: "n div 10 = a"
  from n have "n div 10 < 10" by simp
  then have 1: "n div 10 mod 10 = a" using a by simp
  have 2: "n mod 10 = n - 10 * a" unfolding a [symmetric] by (simp add: minus_mult_div_eq_mod)
  show ?thesis by (simp add: pad2_def 1 2)
qed

lemma month_token_pad2:
  assumes "1 \<le> m" "m \<le> 12"
  shows "month_token (pad2 m) = Some m"
proof (cases "m < 10")
  case True
  then have "pad2 m = [digit_char 0, digit_char (m - 10 * 0)]" by (intro pad2_split) simp_all
  then show ?thesis using True assms by (simp add: digit_simps)
next
  case False
  then have "pad2 m = [digit_char 1, digit_char (m - 10 * 1)]" using assms by (intro pad2_split) simp_all
  then show ?thesis using False assms by (simp add: digit_simps)
qed

lemma day_token_pad2:
  assumes "1 \<le> d" "d \<le> 31"
  shows "day_token (pad2 d) = Some d"
proof -
  consider "d < 10" | "10 \<le> d" "d < 20" | "20 \<le> d" "d < 30" | "30 \<le> d" by linarith
  then show ?thesis
  proof cases
    case 1
    then have "pad2 d = [digit_char 0, digit_char (d - 10 * 0)]" by (intro pad2_split) simp_all
    then show ?thesis using 1 assms by (simp add: digit_simps)
  next
    case 2
    then have "pad2 d = [digit_char 1, digit_char (d - 10 * 1)]" by (intro pad2_split) simp_all
    then show ?thesis using 2 by (simp add: digit_simps)
  next
    case 3
    then have "pad2 d = [digit_char 2, digit_char (d - 10 * 2)]" by (intro pad2_split) simp_all
    then show ?thesis using 3 by (simp add: digit_simps)
  next
    case 4
    then have "pad2 d = [digit_char 3, digit_char (d - 10 * 3)]" using assms by (intro pad2_split) simp_all
    then show ?thesis using 4 assms by (simp add: digit_simps)
  qed
qed

lemma year_digits:
  "1000 * (y div 1000) + 100 * (y div 100 mod 10) + 10 * (y div 10 mod 10) + y mod 10 = y" for y :: nat
proof -
  have a: "y div 100 = (y div 10) div 10" "y div 1000 = ((y div 10) div 10) div 10"
    by (simp_all add: div_mult2_eq)
  have "y = 10 * (y div 10) + y mod 10" by simp
  moreover have "y div 10 = 10 * (y div 10 div 10) + y div 10 mod 10" by simp
  moreover have "y div 10 div 10 = 10 * (y div 10 div 10 div 10) + y div 10 div 10 mod 10" by simp
  ultimately show ?thesis unfolding a by linarith
qed

lemma pad2_no_dash: "takeWhile (\<lambda>c. c \<noteq> CHR ''-'') (pad2 n @ CHR ''-'' # r) = pad2 n"
  "dropWhile (\<lambda>c. c \<noteq> CHR ''-'') (pad2 n @ CHR ''-'' # r) = CHR ''-'' # r"
  by (simp_all add: pad2_def digit_simps)

lemma strptime_strftime:
  assumes "valid_datetime t"
  shows "strptime_ymd (take 10 (strftime t)) = Some (year t, month t, day t)"
proof -
  let ?y = "year t" and ?m = "month t" and ?d = "day t"
  have y: "1000 \<le> ?y" "?y \<le> 9999" and m: "1 \<le> ?m" "?m \<le> 12" and d: "1 \<le> ?d" "?d \<le> days_in_month ?y ?m"
    using assms by (simp_all add: valid_datetime_def)
  have d31: "?d \<le> 31" using d(2) by (simp add: days_in_month_def split: if_splits)
  have tk: "take 10 (strftime t) = pad4 ?y @ CHR ''-'' # (pad2 ?m @ CHR ''-'' # pad2 ?d)"
    by (simp add: strftime_def pad4_def pad2_def)
  have yv: "1000 * (?y div 1000) + 100 * (?y div 100 mod 10) + 10 * (?y div 10 mod 10) + ?y mod 10 = ?y"
    by (rule year_digits)
  have mt: "month_token (pad2 ?m) = Some ?m" using m by (rule month_token_pad2)
  have dt: "day_token (pad2 ?d) = Some ?d" using d(1) d31 by (rule day_token_pad2)
  show ?thesis
    unfolding tk strptime_ymd_def pad4_def
    using y d
    by (simp add: digit_simps pad2_no_dash mt dt yv Let_def)
qed

section \<open>The record of an entry\<close>

text \<open>
  Claim C6, as the code has it: for every entry, \<^verbatim>\<open>to_dict\<close> produces a mapping with
  exactly eight keys, the seven constructor fields and \<^verbatim>\<open>date\<close>, in the order of the
  dict literal, without duplicates, and each key is mapped to the corresponding
  attribute of the entry itself, a plain Python value.
\<close>

theorem to_dict_fields:
  "map fst (to_dict e) = [''title'', ''content'', ''mood'', ''mood_rating'', ''tags'',
       ''completed_tasks'', ''forgettable_thing'', ''date'']
   \<and> distinct (map fst (to_dict e))
   \<and> length (to_dict e) = 8
   \<and> map_of (to_dict e) ''title'' = Some (title e)
   \<and> map_of (to_dict e) ''content'' = Some (content e)
   \<and> map_of (to_dict e) ''mood'' = Some (mood e)
   \<and> map_of (to_dict e) ''mood_rating'' = Some (mood_rating e)
   \<and> map_of (to_dict e) ''tags'' = Some (tags e)
   \<and> map_of (to_dict e) ''completed_tasks'' = Some (completed_tasks e)
   \<and> map_of (to_dict e) ''forgettable_thing'' = Some (forgettable_thing e)
   \<and> map_of (to_dict e) ''date'' = Some (PStr (date e))"
  by (simp add: to_dict_def)

text \<open>
  Claim C6 as stated speaks of exactly seven fields. The mapping of the entry
  \<open>example_entry\<close> does not have seven keys: it has the eight above.
\<close>

theorem to_dict_not_seven_fields:
  "\<not> card (dom (map_of (to_dict example_entry))) = 7"
  by (simp add: to_dict_def dom_map_of_conv_image_fst)

section \<open>Index safety of edit and delete\<close>

text \<open>
  Claim C3: for a collection of length \<open>N\<close> and any integer index, \<^verbatim>\<open>edit_entry\<close> and
  \<^verbatim>\<open>delete_entry\<close> return \<^verbatim>\<open>True\<close> exactly when \<open>0 \<le> index < N\<close>, and then they
  have updated the collection and run \<^verbatim>\<open>save_entries\<close> on it; for an index below
  \<open>0\<close> (which a Python list would accept) or at least \<open>N\<close> they return \<^verbatim>\<open>False\<close> and
  leave the manager and the whole world, its files included, as they were.
\<close>

theorem edit_delete_index_safety:
  "(snd (edit_entry L m w i new) \<longleftrightarrow> 0 \<le> i \<and> i < int (length (entries m)))
   \<and> (snd (delete_entry L m w i) \<longleftrightarrow> 0 \<le> i \<and> i < int (length (entries m)))
   \<and> (0 \<le> i \<and> i < int (length (entries m)) \<longrightarrow>
        edit_entry L m w i new =
          ((m\<lparr>entries := (entries m)[nat i := new]\<rparr>,
            save_entries L (m\<lparr>entries := (entries m)[nat i := new]\<rparr>) w), True)
        \<and> delete_entry L m w i =
          ((m\<lparr>entries := take (nat i) (entries m) @ drop (Suc (nat i)) (entries m)\<rparr>,
            save_entries L (m\<lparr>entries := take (nat i) (entries m) @ drop (Suc (nat i)) (entries m)\<rparr>) w),
           True))
   \<and> (i < 0 \<or> int (length (entries m)) \<le> i \<longrightarrow>
        edit_entry L m w i new = ((m, w), False) \<and> delete_entry L m w i = ((m, w), False))"
  by (auto simp add: edit_entry_def delete_entry_def Let_def)

theorem edit_delete_index_safety_witness:
  "edit_entry example_library (example_manager [example_entry]) empty_world (- 1) example_entry_B
     = ((example_manager [example_entry], empty_world), False)
   \<and> delete_entry example_library (example_manager [example_entry]) empty_world 1
     = ((example_manager [example_entry], empty_world), False)
   \<and> snd (edit_entry example_library (example_manager [example_entry]) empty_world 0 example_entry_B)
   \<and> fst (fst (delete_entry example_library (example_manager [example_entry]) empty_world 0))
       = example_manager []"
  using edit_delete_index_safety [of example_library "example_manager [example_entry]" empty_world "- 1" example_entry_B]
    edit_delete_index_safety [of example_library "example_manager [example_entry]" empty_world 1 example_entry_B]
    edit_delete_index_safety [of example_library "example_manager [example_entry]" empty_world 0 example_entry_B]
  by (simp add: example_manager_def)

section \<open>Saving\<close>

lemma file_names_distinct:
  "backup_file_of f \<noteq> f" "f \<noteq> backup_file_of f"
  "key_file_of u \<noteq> filename_of u" "filename_of u \<noteq> key_file_of u"
  "key_file_of u \<noteq> backup_file_of (filename_of u)"
  by (simp_all add: backup_file_of_def key_file_of_def filename_of_def)

lemma save_entries_files:
  "files (save_entries L m w) = files (fst (save_body L m w))"
  by (simp add: save_entries_def print_line_def split: prod.splits option.splits)

text \<open>
  Claim C10: \<^verbatim>\<open>save_entries\<close> writes the backup file only after serialisation,
  encryption and the write of the primary file have completed. If the backup file
  differs after the call, all three earlier steps succeeded and the primary file holds
  the ciphertext; a failing write of the primary file leaves the backup as it was; a
  failing serialisation or encryption leaves every file as it was; and when the body
  completes without an exception, both files hold the same ciphertext.
\<close>

theorem save_backup_written_last:
  "(files (save_entries L m w) (backup_file_of (filename m)) \<noteq> files w (backup_file_of (filename m)) \<longrightarrow>
      (\<exists>data c. json_dumps L (records (entries m)) = Inr data
         \<and> encrypt L (key m) (entropy w) data = Inr c
         \<and> write_faults w (filename m) = No_fault
         \<and> files (save_entries L m w) (filename m) = Some c))
   \<and> (write_faults w (filename m) \<noteq> No_fault \<longrightarrow>
        files (save_entries L m w) (backup_file_of (filename m)) = files w (backup_file_of (filename m)))
   \<and> ((\<exists>e. json_dumps L (records (entries m)) = Inl e)
        \<or> (\<exists>data e. json_dumps L (records (entries m)) = Inr data
               \<and> encrypt L (key m) (entropy w) data = Inl e) \<longrightarrow>
        files (save_entries L m w) = files w)
   \<and> (snd (save_body L m w) = None \<longrightarrow>
        (\<exists>data c. json_dumps L (records (entries m)) = Inr data
           \<and> encrypt L (key m) (entropy w) data = Inr c
           \<and> files (save_entries L m w) (filename m) = Some c
           \<and> files (save_entries L m w) (backup_file_of (filename m)) = Some c))"
proof -
  let ?f = "filename m" and ?b = "backup_file_of (filename m)"
  show ?thesis
  proof (cases "json_dumps L (records (entries m))")
    case (Inl e)
    then show ?thesis by (simp add: save_entries_files save_body_def)
  next
    case dumps: (Inr data)
    show ?thesis
    proof (cases "encrypt L (key m) (entropy w) data")
      case (Inl e)
      then show ?thesis using dumps by (simp add: save_entries_files save_body_def)
    next
      case enc: (Inr c)
      show ?thesis
      proof (cases "write_faults w ?f")
        case No_fault
        then show ?thesis using dumps enc
          by (cases "write_faults w ?b")
             (simp_all add: save_entries_files save_body_def write_file_def file_names_distinct)
      next
        case Open_denied
        then show ?thesis using dumps enc
          by (simp add: save_entries_files save_body_def write_file_def file_names_distinct)
      next
        case (Write_fails n)
        then show ?thesis using dumps enc
          by (simp add: save_entries_files save_body_def write_file_def file_names_distinct)
      qed
    qed
  qed
qed

lemma example_dumps_simps:
  "example_dumps (records []) = Inr ''[]''"
  "example_dumps (records [example_entry]) = Inr example_json"
  "example_dumps (records [example_entry_B]) = Inr example_json_B"
  by (simp_all add: example_dumps_def records_def to_dict_def example_entry_def
        example_entry_B_def JournalEntry_init_def)

lemma example_loads_simps:
  "example_loads ''[]'' = Inr (records [])"
  "example_loads example_json = Inr (records [example_entry])"
  "example_loads example_json_B = Inr (records [example_entry_B])"
  by (simp_all add: example_loads_def example_json_def example_json_B_def records_def)

lemma example_library_simps:
  "Fernet_accepts example_library k = (length k = 44)"
  "generate_key example_library r = example_key"
  "encrypt example_library k r s = Inr (k @ s)"
  "decrypt example_library k c =
     (if take (length k) c = k then Inr (drop (length k) c) else Inl InvalidToken)"
  "json_dumps example_library = example_dumps"
  "json_loads example_library = example_loads"
  by (simp_all add: example_library_def)

lemma example_manager_simps:
  "username (example_manager es) = ''u''"
  "filename (example_manager es) = filename_of ''u''"
  "key (example_manager es) = example_key"
  "entries (example_manager es) = es"
  "(example_manager es)\<lparr>entries := es'\<rparr> = example_manager es'"
  by (simp_all add: example_manager_def)

lemma length_example_key: "length example_key = 44"
  by (simp add: example_key_def)

theorem save_backup_written_last_witness:
  "files (save_entries example_library (example_manager [example_entry]) empty_world) (filename_of ''u'')
      = Some (example_key @ example_json)
   \<and> files (save_entries example_library (example_manager [example_entry]) empty_world)
        (backup_file_of (filename_of ''u'')) = Some (example_key @ example_json)
   \<and> files (save_entries example_library (example_manager [example_entry]) read_only_world)
        (backup_file_of (filename_of ''u'')) = None"
proof -
  let ?m = "example_manager [example_entry]"
  have completes: "snd (save_body example_library ?m empty_world) = None"
    by (simp add: save_body_def example_library_simps example_manager_simps example_dumps_simps
          write_file_def empty_world_def split: prod.splits)
  have fault: "write_faults read_only_world (filename ?m) \<noteq> No_fault"
    by (simp add: read_only_world_def)
  have before: "files read_only_world (backup_file_of (filename_of ''u'')) = None"
    by (simp add: read_only_world_def empty_world_def)
  from save_backup_written_last [of example_library ?m empty_world] completes
  obtain data c where "json_dumps example_library (records (entries ?m)) = Inr data"
    and "encrypt example_library (key ?m) (entropy empty_world) data = Inr c"
    and "files (save_entries example_library ?m empty_world) (filename ?m) = Some c"
    and "files (save_entries example_library ?m empty_world) (backup_file_of (filename ?m)) = Some c"
    by blast
  moreover from save_backup_written_last [of example_library ?m read_only_world] fault
  have "files (save_entries example_library ?m read_only_world) (backup_file_of (filename ?m))
          = files read_only_world (backup_file_of (filename ?m))"
    by blast
  ultimately show ?thesis using before
    by (simp add: example_library_simps example_manager_simps example_dumps_simps)
qed

section \<open>Loading\<close>

text \<open>
  The body of the \<^verbatim>\<open>try\<close> of \<^verbatim>\<open>load_entries\<close> raises in these cases and in no other:
  the file is there and cannot be read, or it is read, is not empty, and decrypting,
  parsing, iterating or rebuilding the entries raises.
\<close>

lemma load_body_fails_iff:
  "load_body L clk m w = Inl e \<longleftrightarrow>
     (\<exists>c. files w (filename m) = Some c \<and>
       ((read_denied w (filename m) \<and> e = OSError)
       \<or> (\<not> read_denied w (filename m) \<and> c \<noteq> [] \<and>
           (decrypt L (key m) c = Inl e
            \<or> (\<exists>s. decrypt L (key m) c = Inr s \<and>
                 (json_loads L s = Inl e
                  \<or> (\<exists>d. json_loads L s = Inr d \<and>
                       (py_iter d = Inl e
                        \<or> (\<exists>items. py_iter d = Inr items \<and> build_entries clk 0 items = Inl e)))))))))"
  by (auto simp add: load_body_def path_exists_def read_file_def split: sum.splits option.splits)

text \<open>
  Claim C4: when the data file is there and loading it fails, because the file cannot
  be read, or its non-empty content does not decrypt, or the decrypted text is not
  JSON, or the JSON value is not a sequence of records that the constructor accepts,
  then \<^verbatim>\<open>load_entries\<close> returns normally: the collection is the empty list, one
  line \<^verbatim>\<open>Error loading journal\<close> with the exception is printed, and nothing else in the
  world changes; in particular no file is deleted or overwritten.
\<close>

theorem load_failure_absorbed:
  assumes present: "files w (filename m) = Some c"
    and cause:
      "(read_denied w (filename m) \<and> e = OSError)
       \<or> (\<not> read_denied w (filename m) \<and> c \<noteq> [] \<and>
           (decrypt L (key m) c = Inl e
            \<or> (\<exists>s. decrypt L (key m) c = Inr s \<and>
                 (json_loads L s = Inl e
                  \<or> (\<exists>d. json_loads L s = Inr d \<and>
                       (py_iter d = Inl e
                        \<or> (\<exists>items. py_iter d = Inr items \<and> build_entries clk 0 items = Inl e)))))))"
  shows "load_entries L clk m w =
           (m\<lparr>entries := []\<rparr>, w\<lparr>stdout := stdout w @ [Error_loading_journal e]\<rparr>)
         \<and> files (snd (load_entries L clk m w)) = files w"
proof -
  have "load_body L clk m w = Inl e"
    unfolding load_body_fails_iff using present cause by blast
  then show ?thesis by (simp add: load_entries_def print_line_def)
qed

theorem load_failure_absorbed_witness:
  "load_entries example_library example_clock (example_manager []) garbage_data_world =
     (example_manager [], garbage_data_world\<lparr>stdout := [Error_loading_journal InvalidToken]\<rparr>)
   \<and> files (snd (load_entries example_library example_clock (example_manager []) garbage_data_world))
       (filename_of ''u'') = Some ''garbage''"
proof -
  have 1: "files garbage_data_world (filename (example_manager [])) = Some ''garbage''"
    by (simp add: garbage_data_world_def empty_world_def example_manager_simps)
  have 2: "\<not> read_denied garbage_data_world (filename (example_manager []))"
    by (simp add: garbage_data_world_def empty_world_def)
  have 3: "decrypt example_library (key (example_manager [])) ''garbage'' = Inl InvalidToken"
    by (simp add: example_library_simps example_manager_simps example_key_def)
  have 4: "stdout garbage_data_world = []"
    by (simp add: garbage_data_world_def empty_world_def)
  from load_failure_absorbed [of garbage_data_world "example_manager []" "''garbage''"
      InvalidToken example_library example_clock] 1 2 3
  show ?thesis by (simp add: example_manager_simps 4)
qed

section \<open>Opening a store\<close>

lemmas load_frame = load_entries_def load_body_def path_exists_def read_file_def print_line_def



section \<open>A save that fails\<close>

text \<open>
  Claim C5, as the code has it: when the body of \<^verbatim>\<open>save_entries\<close> ends with an
  exception, the handler prints one line \<^verbatim>\<open>Error saving journal\<close> and the call
  returns normally; \<^verbatim>\<open>add_entry\<close>, \<^verbatim>\<open>edit_entry\<close> and \<^verbatim>\<open>delete_entry\<close> then return what
  they return after a successful save (nothing, \<^verbatim>\<open>True\<close>, \<^verbatim>\<open>True\<close>), and the
  in-memory collection keeps the attempted change.
\<close>

theorem save_failure_only_printed:
  assumes fails: "save_body L m1 w = (w1, Some e)"
  shows "save_entries L m1 w = w1\<lparr>stdout := stdout w1 @ [Error_saving_journal e]\<rparr>
     \<and> (m1 = m\<lparr>entries := entries m @ [new]\<rparr> \<longrightarrow>
          add_entry L m w new = (m1, w1\<lparr>stdout := stdout w1 @ [Error_saving_journal e]\<rparr>))
     \<and> (0 \<le> i \<and> i < int (length (entries m)) \<and> m1 = m\<lparr>entries := (entries m)[nat i := new]\<rparr> \<longrightarrow>
          edit_entry L m w i new = ((m1, w1\<lparr>stdout := stdout w1 @ [Error_saving_journal e]\<rparr>), True))
     \<and> (0 \<le> i \<and> i < int (length (entries m))
          \<and> m1 = m\<lparr>entries := take (nat i) (entries m) @ drop (Suc (nat i)) (entries m)\<rparr> \<longrightarrow>
          delete_entry L m w i = ((m1, w1\<lparr>stdout := stdout w1 @ [Error_saving_journal e]\<rparr>), True))"
  using fails
  by (auto simp add: save_entries_def print_line_def add_entry_def edit_entry_def delete_entry_def Let_def)

lemma save_body_read_only:
  "save_body example_library (example_manager [example_entry_B]) read_only_world
     = (read_only_world\<lparr>entropy := 1\<rparr>, Some OSError)"
  by (simp add: save_body_def example_library_simps example_manager_simps example_dumps_simps
        write_file_def read_only_world_def empty_world_def)

theorem save_failure_only_printed_witness:
  "edit_entry example_library (example_manager [example_entry]) read_only_world 0 example_entry_B
     = ((example_manager [example_entry_B],
         read_only_world\<lparr>entropy := 1, stdout := [Error_saving_journal OSError]\<rparr>), True)
   \<and> add_entry example_library (example_manager []) read_only_world example_entry_B
     = (example_manager [example_entry_B],
         read_only_world\<lparr>entropy := 1, stdout := [Error_saving_journal OSError]\<rparr>)"
  using save_failure_only_printed [OF save_body_read_only, of "example_manager [example_entry]" example_entry_B 0]
    save_failure_only_printed [OF save_body_read_only, of "example_manager []" example_entry_B 0]
  by (simp add: example_manager_def read_only_world_def empty_world_def)

text \<open>
  Claim C5 as stated has the failure surfaced to the caller of the mutating operation
  as a failure signal. In a directory that refuses every write the save of the edited
  collection ends with \<^verbatim>\<open>OSError\<close>, and \<^verbatim>\<open>edit_entry\<close> returns \<^verbatim>\<open>True\<close>, the value it
  returns when the save succeeds.
\<close>

theorem edit_returns_True_when_save_fails:
  "snd (save_body example_library (example_manager [example_entry_B]) read_only_world) = Some OSError
   \<and> snd (edit_entry example_library (example_manager [example_entry]) read_only_world 0 example_entry_B)
       = True
   \<and> snd (edit_entry example_library (example_manager [example_entry]) empty_world 0 example_entry_B)
       = True"
  by (simp add: save_body_read_only edit_entry_def example_manager_simps Let_def)

section \<open>The key file\<close>

text \<open>
  Claim C2, as the code has it, by the state of the key file; the six cases cover
  every state. Missing and writable, with a generated key that \<^verbatim>\<open>Fernet\<close> accepts: the
  fresh key is written to the key file and the store opens with it. Present, readable
  and valid: the key is read verbatim and the store opens with it. In every other
  state an exception leaves the constructor and, in \<^verbatim>\<open>main\<close>, ends the process:
  \<^verbatim>\<open>ValueError\<close> from \<^verbatim>\<open>Fernet(self.key)\<close> when the key file is readable and does not hold
  a valid key (nothing has been written or printed), or when the generated key is
  refused; \<^verbatim>\<open>OSError\<close> when the key file is there and cannot be read (the world is
  as it was), or is missing and cannot be written (nothing is printed, no other file
  changes, and no file at all when it is the opening of the key file that is refused).
\<close>

theorem open_store_by_key_file_state:
  "(files w (key_file_of u) = None \<and> write_faults w (key_file_of u) = No_fault
      \<and> Fernet_accepts L (generate_key L (entropy w)) \<longrightarrow>
      (\<exists>m w1. main_open L clk u w = (w1, Menu m) \<and> key m = generate_key L (entropy w)
          \<and> files w1 (key_file_of u) = Some (generate_key L (entropy w))))
   \<and> (files w (key_file_of u) = Some k \<and> \<not> read_denied w (key_file_of u) \<and> Fernet_accepts L k \<longrightarrow>
      (\<exists>m w1. main_open L clk u w = (w1, Menu m) \<and> key m = k
          \<and> files w1 (key_file_of u) = Some k))
   \<and> (files w (key_file_of u) = Some k \<and> \<not> read_denied w (key_file_of u) \<and> \<not> Fernet_accepts L k \<longrightarrow>
      JournalManager_init L clk u w = (w, Inl ValueError)
      \<and> main_open L clk u w = (w, Crashed ValueError))
   \<and> (files w (key_file_of u) = Some k \<and> read_denied w (key_file_of u) \<longrightarrow>
      JournalManager_init L clk u w = (w, Inl OSError)
      \<and> main_open L clk u w = (w, Crashed OSError))
   \<and> (files w (key_file_of u) = None \<and> write_faults w (key_file_of u) \<noteq> No_fault \<longrightarrow>
      (\<exists>w1. JournalManager_init L clk u w = (w1, Inl OSError)
          \<and> main_open L clk u w = (w1, Crashed OSError)
          \<and> stdout w1 = stdout w
          \<and> (\<forall>p. p \<noteq> key_file_of u \<longrightarrow> files w1 p = files w p)
          \<and> (write_faults w (key_file_of u) = Open_denied \<longrightarrow> files w1 = files w)))
   \<and> (files w (key_file_of u) = None \<and> write_faults w (key_file_of u) = No_fault
      \<and> \<not> Fernet_accepts L (generate_key L (entropy w)) \<longrightarrow>
      (\<exists>w1. JournalManager_init L clk u w = (w1, Inl ValueError)
          \<and> main_open L clk u w = (w1, Crashed ValueError)))"
proof (intro conjI impI)
  assume a: "files w (key_file_of u) = None \<and> write_faults w (key_file_of u) = No_fault
      \<and> Fernet_accepts L (generate_key L (entropy w))"
  let ?m = "\<lparr>username = u, filename = filename_of u, key = generate_key L (entropy w), entries = []\<rparr>"
  let ?w1 = "w\<lparr>entropy := Suc (entropy w),
                files := (files w)(key_file_of u \<mapsto> generate_key L (entropy w))\<rparr>"
  from a have k: "get_or_create_key L u w = (?w1, Inr (generate_key L (entropy w)))"
    by (simp add: get_or_create_key_def path_exists_def write_file_def Let_def)
  obtain m w2 where l: "load_entries L clk ?m ?w1 = (m, w2)" by (cases "load_entries L clk ?m ?w1")
  then have "key m = generate_key L (entropy w)" "files w2 = files ?w1"
    by (auto simp add: load_entries_def print_line_def split: sum.splits)
  then show "\<exists>m w1. main_open L clk u w = (w1, Menu m) \<and> key m = generate_key L (entropy w)
          \<and> files w1 (key_file_of u) = Some (generate_key L (entropy w))"
    using a k l by (simp add: main_open_def JournalManager_init_def)
next
  assume a: "files w (key_file_of u) = Some k \<and> \<not> read_denied w (key_file_of u) \<and> Fernet_accepts L k"
  let ?m = "\<lparr>username = u, filename = filename_of u, key = k, entries = []\<rparr>"
  from a have k: "get_or_create_key L u w = (w, Inr k)"
    by (simp add: get_or_create_key_def path_exists_def read_file_def)
  obtain m w2 where l: "load_entries L clk ?m w = (m, w2)" by (cases "load_entries L clk ?m w")
  then have "key m = k" "files w2 = files w"
    by (auto simp add: load_entries_def print_line_def split: sum.splits)
  then show "\<exists>m w1. main_open L clk u w = (w1, Menu m) \<and> key m = k \<and> files w1 (key_file_of u) = Some k"
    using a k l by (simp add: main_open_def JournalManager_init_def)
next
  assume a: "files w (key_file_of u) = Some k \<and> \<not> read_denied w (key_file_of u) \<and> \<not> Fernet_accepts L k"
  then have k: "get_or_create_key L u w = (w, Inr k)"
    by (simp add: get_or_create_key_def path_exists_def read_file_def)
  then show "JournalManager_init L clk u w = (w, Inl ValueError)"
    using a by (simp add: JournalManager_init_def)
  then show "main_open L clk u w = (w, Crashed ValueError)"
    by (simp add: main_open_def)
next
  assume a: "files w (key_file_of u) = Some k \<and> read_denied w (key_file_of u)"
  then have "get_or_create_key L u w = (w, Inl OSError)"
    by (simp add: get_or_create_key_def path_exists_def read_file_def)
  then show "JournalManager_init L clk u w = (w, Inl OSError)"
    by (simp add: JournalManager_init_def)
  then show "main_open L clk u w = (w, Crashed OSError)"
    by (simp add: main_open_def)
next
  assume a: "files w (key_file_of u) = None \<and> write_faults w (key_file_of u) \<noteq> No_fault"
  obtain w1 where g: "get_or_create_key L u w = (w1, Inl OSError)"
    and f: "stdout w1 = stdout w" "\<forall>p. p \<noteq> key_file_of u \<longrightarrow> files w1 p = files w p"
      "write_faults w (key_file_of u) = Open_denied \<longrightarrow> files w1 = files w"
    using a
    by (cases "write_faults w (key_file_of u)")
       (simp_all add: get_or_create_key_def path_exists_def write_file_def Let_def)
  from g have "JournalManager_init L clk u w = (w1, Inl OSError)"
    by (simp add: JournalManager_init_def)
  moreover from this have "main_open L clk u w = (w1, Crashed OSError)"
    by (simp add: main_open_def)
  ultimately show "\<exists>w1. JournalManager_init L clk u w = (w1, Inl OSError)
          \<and> main_open L clk u w = (w1, Crashed OSError)
          \<and> stdout w1 = stdout w
          \<and> (\<forall>p. p \<noteq> key_file_of u \<longrightarrow> files w1 p = files w p)
          \<and> (write_faults w (key_file_of u) = Open_denied \<longrightarrow> files w1 = files w)"
    using f by blast
next
  assume a: "files w (key_file_of u) = None \<and> write_faults w (key_file_of u) = No_fault
      \<and> \<not> Fernet_accepts L (generate_key L (entropy w))"
  let ?w1 = "w\<lparr>entropy := Suc (entropy w),
                files := (files w)(key_file_of u \<mapsto> generate_key L (entropy w))\<rparr>"
  from a have "get_or_create_key L u w = (?w1, Inr (generate_key L (entropy w)))"
    by (simp add: get_or_create_key_def path_exists_def write_file_def Let_def)
  then have "JournalManager_init L clk u w = (?w1, Inl ValueError)"
    using a by (simp add: JournalManager_init_def)
  moreover from this have "main_open L clk u w = (?w1, Crashed ValueError)"
    by (simp add: main_open_def)
  ultimately show "\<exists>w1. JournalManager_init L clk u w = (w1, Inl ValueError)
          \<and> main_open L clk u w = (w1, Crashed ValueError)" by blast
qed

theorem open_store_by_key_file_state_witness:
  "main_open example_library example_clock ''u'' empty_world
     = (empty_world\<lparr>files := [key_file_of ''u'' \<mapsto> example_key], entropy := 1\<rparr>, Menu (example_manager []))
   \<and> main_open example_library example_clock ''u'' empty_data_world
     = (empty_data_world, Menu (example_manager []))
   \<and> JournalManager_init example_library example_clock ''u'' corrupt_key_world
     = (corrupt_key_world, Inl ValueError)
   \<and> main_open example_library example_clock ''u'' unreadable_key_world
     = (unreadable_key_world, Crashed OSError)
   \<and> main_open example_library example_clock ''u'' read_only_world
     = (read_only_world\<lparr>entropy := 1\<rparr>, Crashed OSError)"
proof -
  have a: "files empty_world (key_file_of ''u'') = None"
    "write_faults empty_world (key_file_of ''u'') = No_fault"
    "Fernet_accepts example_library (generate_key example_library (entropy empty_world))"
    by (simp_all add: empty_world_def example_library_simps length_example_key)
  have b: "files empty_data_world (key_file_of ''u'') = Some example_key"
    "\<not> read_denied empty_data_world (key_file_of ''u'')"
    "Fernet_accepts example_library example_key"
    by (simp_all add: empty_data_world_def empty_world_def file_names_distinct
          example_library_simps length_example_key)
  have c: "files corrupt_key_world (key_file_of ''u'') = Some ''not a key''"
    "\<not> read_denied corrupt_key_world (key_file_of ''u'')"
    "\<not> Fernet_accepts example_library ''not a key''"
    by (simp_all add: corrupt_key_world_def empty_world_def example_library_simps)
  have r1: "main_open example_library example_clock ''u'' empty_world
     = (empty_world\<lparr>files := [key_file_of ''u'' \<mapsto> example_key], entropy := 1\<rparr>, Menu (example_manager []))"
    by (simp add: main_open_def JournalManager_init_def get_or_create_key_def load_frame
        write_file_def Let_def empty_world_def example_library_simps length_example_key
        example_manager_def file_names_distinct)
  have r2: "main_open example_library example_clock ''u'' empty_data_world
     = (empty_data_world, Menu (example_manager []))"
    by (simp add: main_open_def JournalManager_init_def get_or_create_key_def load_frame
        empty_data_world_def empty_world_def example_library_simps length_example_key
        example_manager_def file_names_distinct)
  from open_store_by_key_file_state
         [where w = corrupt_key_world and u = "''u''" and L = example_library
            and k = "''not a key''" and clk = example_clock] c
  have r3: "JournalManager_init example_library example_clock ''u'' corrupt_key_world
     = (corrupt_key_world, Inl ValueError)" by simp
  have d: "files unreadable_key_world (key_file_of ''u'') = Some example_key"
    "read_denied unreadable_key_world (key_file_of ''u'')"
    by (simp_all add: unreadable_key_world_def empty_world_def)
  from open_store_by_key_file_state
         [where w = unreadable_key_world and u = "''u''" and L = example_library
            and k = example_key and clk = example_clock] d
  have r4: "main_open example_library example_clock ''u'' unreadable_key_world
     = (unreadable_key_world, Crashed OSError)" by simp
  have e: "files read_only_world (key_file_of ''u'') = None"
    "write_faults read_only_world (key_file_of ''u'') \<noteq> No_fault"
    by (simp_all add: read_only_world_def empty_world_def)
  from open_store_by_key_file_state
         [where w = read_only_world and u = "''u''" and L = example_library
            and k = example_key and clk = example_clock] e
  obtain w1 where "main_open example_library example_clock ''u'' read_only_world
     = (w1, Crashed OSError)" by blast
  moreover have "fst (main_open example_library example_clock ''u'' read_only_world)
     = read_only_world\<lparr>entropy := 1\<rparr>"
    by (simp add: main_open_def JournalManager_init_def get_or_create_key_def path_exists_def
          write_file_def Let_def read_only_world_def empty_world_def example_library_simps)
  ultimately have r5: "main_open example_library example_clock ''u'' read_only_world
     = (read_only_world\<lparr>entropy := 1\<rparr>, Crashed OSError)" by simp
  from open_store_by_key_file_state
         [where w = empty_world and u = "''u''" and L = example_library
            and k = example_key and clk = example_clock] a
       open_store_by_key_file_state
         [where w = empty_data_world and u = "''u''" and L = example_library
            and k = example_key and clk = example_clock] b
       r1 r2 r3 r4 r5
  show ?thesis by simp
qed

text \<open>
  Claim C2 as stated has no state of the key file crash the process. With the key
  file holding \<^verbatim>\<open>not a key\<close>, opening the store from \<^verbatim>\<open>main\<close> ends in the uncaught
  \<^verbatim>\<open>ValueError\<close>.
\<close>

theorem corrupt_key_crashes_open:
  "main_open example_library example_clock ''u'' corrupt_key_world
     = (corrupt_key_world, Crashed ValueError)"
  by (simp add: main_open_def JournalManager_init_def get_or_create_key_def path_exists_def
        read_file_def corrupt_key_world_def empty_world_def example_library_simps)

section \<open>The date of an entry\<close>

lemma timestamp_format_strftime: "timestamp_format (strftime t)"
  by (simp add: timestamp_format_def strftime_def pad4_def pad2_def digit_simps)

text \<open>
  Claim C8: the constructor sets \<^verbatim>\<open>date\<close> to the clock reading printed as
  \<^verbatim>\<open>YYYY-MM-DD HH:MM:SS\<close>, and the store never changes the date of an entry it holds:
  \<^verbatim>\<open>edit_entry\<close> with an index in range puts the new entry, whole, at that index, so
  the date found there is the construction timestamp of the new entry, and leaves the
  entries at the other indices as they were; after \<^verbatim>\<open>add_entry\<close>, \<^verbatim>\<open>edit_entry\<close> or
  \<^verbatim>\<open>delete_entry\<close> every entry of the collection is an entry that was there before, or
  the entry handed in.
\<close>

theorem date_set_at_construction_only:
  assumes i: "0 \<le> i" "i < int (length (entries m))" and now: "valid_datetime now"
  shows "date (JournalEntry_init now t c mo r tg ct f) = strftime now
     \<and> timestamp_format (date (JournalEntry_init now t c mo r tg ct f))
     \<and> entries (fst (fst (edit_entry L m w i new))) = (entries m)[nat i := new]
     \<and> entries (fst (fst (edit_entry L m w i new))) ! nat i = new
     \<and> date (entries (fst (fst (edit_entry L m w i (JournalEntry_init now t c mo r tg ct f)))) ! nat i)
         = strftime now
     \<and> (\<forall>j < length (entries m). j \<noteq> nat i \<longrightarrow>
           entries (fst (fst (edit_entry L m w i new))) ! j = entries m ! j)
     \<and> set (entries (fst (fst (edit_entry L m w i new)))) \<subseteq> insert new (set (entries m))
     \<and> set (entries (fst (add_entry L m w new))) \<subseteq> insert new (set (entries m))
     \<and> set (entries (fst (fst (delete_entry L m w i)))) \<subseteq> set (entries m)"
proof -
  have n: "nat i < length (entries m)" using i by simp
  have 1: "date (JournalEntry_init now t c mo r tg ct f) = strftime now"
    by (simp add: JournalEntry_init_def)
  have 2: "entries (fst (fst (edit_entry L m w i x))) = (entries m)[nat i := x]" for x
    using i by (simp add: edit_entry_def Let_def)
  have 3: "set ((entries m)[nat i := new]) \<subseteq> insert new (set (entries m))"
    by (rule set_update_subset_insert)
  have 4: "set (entries (fst (add_entry L m w new))) \<subseteq> insert new (set (entries m))"
    by (auto simp add: add_entry_def Let_def)
  have 5: "set (entries (fst (fst (delete_entry L m w i)))) \<subseteq> set (entries m)"
    using i by (auto simp add: delete_entry_def Let_def dest: in_set_takeD in_set_dropD)
  show ?thesis
    using n 3 4 5 by (simp add: 1 2 timestamp_format_strftime)
qed

theorem date_set_at_construction_only_witness:
  "date example_entry_B = ''2024-03-06 09:30:00''
   \<and> timestamp_format (date example_entry_B)
   \<and> entries (fst (fst (edit_entry example_library (example_manager [example_entry]) empty_world 0
         example_entry_B))) = [example_entry_B]
   \<and> date (entries (fst (fst (edit_entry example_library (example_manager [example_entry]) empty_world 0
         example_entry_B))) ! 0) = ''2024-03-06 09:30:00''"
proof -
  have d: "strftime (example_now\<lparr>day := 6\<rparr>) = ''2024-03-06 09:30:00''"
    by (simp add: example_now_def strftime_def pad2_def pad4_def digit_char_def)
  have i: "(0::int) \<le> 0" "0 < int (length (entries (example_manager [example_entry])))"
    "valid_datetime (example_now\<lparr>day := 6\<rparr>)"
    by (simp_all add: example_manager_simps valid_datetime_def example_now_def days_in_month_def)
  note f = date_set_at_construction_only [OF i, of "PStr ''B''"
      "PStr ''second day''" "PStr ''sad''" "PInt 2" PNone PNone PNone example_library empty_world
      example_entry_B, folded example_entry_B_def]
  from f have a: "date example_entry_B = strftime (example_now\<lparr>day := 6\<rparr>)"
    and b: "timestamp_format (date example_entry_B)"
    and c: "entries (fst (fst (edit_entry example_library (example_manager [example_entry]) empty_world 0
         example_entry_B))) = (entries (example_manager [example_entry]))[nat 0 := example_entry_B]"
    by blast+
  show ?thesis using a b c by (simp add: d example_manager_simps)
qed

section \<open>Search by date range\<close>

lemma date_filter_all_parse:
  "\<forall>x\<in>set es. strptime_ymd (take 10 (date x)) \<noteq> None \<Longrightarrow>
     date_filter s e es = Some (filter (in_date_range s e) es)"
proof (induction es)
  case Nil
  then show ?case by simp
next
  case (Cons x xs)
  then obtain d where d: "strptime_ymd (take 10 (date x)) = Some d" by auto
  from Cons have "date_filter s e xs = Some (filter (in_date_range s e) xs)" by simp
  moreover have "in_date_range s e x = (date_le s d \<and> date_le d e)"
    using d by (simp add: in_date_range_def)
  ultimately show ?case using d by simp
qed

text \<open>The date that the constructor sets always parses back, to the day it was built on.\<close>

lemma constructed_date_parses:
  "valid_datetime now \<Longrightarrow>
     strptime_ymd (take 10 (date (JournalEntry_init now t c mo r tg ct f)))
       = Some (year now, month now, day now)"
  by (simp add: JournalEntry_init_def strptime_strftime)

text \<open>
  Claim C7: over a collection of entries whose dates are construction timestamps, if
  both \<^verbatim>\<open>start\<close> and \<^verbatim>\<open>end\<close> parse under \<^verbatim>\<open>%Y-%m-%d\<close>, the date-range search finds
  exactly the entries, in their order, whose calendar date (the first ten characters
  of \<^verbatim>\<open>date\<close>, that is year, month and day of the timestamp) lies between the two
  parsed dates, both included; if either string does not parse, the search reports
  \<^verbatim>\<open>Invalid date format\<close> and finds nothing. The search only reads the collection: the
  function has no state to return.
\<close>

theorem search_by_date_range_spec:
  "(strptime_ymd start_date = Some s \<and> strptime_ymd end_date = Some e
      \<and> (\<forall>x\<in>set (entries m). \<exists>t. valid_datetime t \<and> date x = strftime t) \<longrightarrow>
      search_by_date_range m start_date end_date =
        (if filter (in_date_range s e) (entries m) = [] then No_matching_entries
         else Found (filter (in_date_range s e) (entries m)))
      \<and> (\<forall>x\<in>set (entries m). \<forall>t. valid_datetime t \<and> date x = strftime t \<longrightarrow>
            in_date_range s e x =
              (date_le s (year t, month t, day t) \<and> date_le (year t, month t, day t) e)))
   \<and> (strptime_ymd start_date = None \<or> strptime_ymd end_date = None \<longrightarrow>
      search_by_date_range m start_date end_date = Invalid_date_format)"
proof (intro conjI impI ballI allI)
  assume a: "strptime_ymd start_date = Some s \<and> strptime_ymd end_date = Some e
      \<and> (\<forall>x\<in>set (entries m). \<exists>t. valid_datetime t \<and> date x = strftime t)"
  then have "\<forall>x\<in>set (entries m). strptime_ymd (take 10 (date x)) \<noteq> None"
    by (auto simp add: strptime_strftime)
  then have "date_filter s e (entries m) = Some (filter (in_date_range s e) (entries m))"
    by (rule date_filter_all_parse)
  then show "search_by_date_range m start_date end_date =
        (if filter (in_date_range s e) (entries m) = [] then No_matching_entries
         else Found (filter (in_date_range s e) (entries m)))"
    using a by (simp add: search_by_date_range_def)
next
  fix x :: JournalEntry and t :: datetime
  assume "valid_datetime t \<and> date x = strftime t"
  then show "in_date_range s e x =
      (date_le s (year t, month t, day t) \<and> date_le (year t, month t, day t) e)"
    by (simp add: in_date_range_def strptime_strftime)
next
  assume "strptime_ymd start_date = None \<or> strptime_ymd end_date = None"
  then show "search_by_date_range m start_date end_date = Invalid_date_format"
    by (auto simp add: search_by_date_range_def split: option.splits)
qed

lemma example_dates:
  "valid_datetime example_now" "valid_datetime (example_now\<lparr>day := 6\<rparr>)"
  "date example_entry = strftime example_now"
  "date example_entry_B = strftime (example_now\<lparr>day := 6\<rparr>)"
  by (simp_all add: valid_datetime_def example_now_def days_in_month_def example_entry_def
        example_entry_B_def JournalEntry_init_def)

lemma example_query_dates:
  "strptime_ymd ''2024-03-06'' = Some (2024, 3, 6)"
  "strptime_ymd ''2024-03-31'' = Some (2024, 3, 31)"
  "strptime_ymd ''2024-13-01'' = None"
  by (simp_all add: strptime_ymd_def is_digit_def digit_val_def days_in_month_def is_leap_def)

theorem search_by_date_range_spec_witness:
  "search_by_date_range (example_manager [example_entry, example_entry_B]) ''2024-03-06'' ''2024-03-31''
     = Found [example_entry_B]
   \<and> search_by_date_range (example_manager [example_entry, example_entry_B]) ''2024-13-01'' ''2024-03-31''
     = Invalid_date_format"
proof -
  let ?m = "example_manager [example_entry, example_entry_B]"
  have c: "\<forall>x\<in>set (entries ?m). \<exists>t. valid_datetime t \<and> date x = strftime t"
    using example_dates by (auto simp add: example_manager_simps)
  have p: "strptime_ymd (take 10 (date example_entry)) = Some (2024, 3, 5)"
    "strptime_ymd (take 10 (date example_entry_B)) = Some (2024, 3, 6)"
    using strptime_strftime [OF example_dates(1)] strptime_strftime [OF example_dates(2)]
    by (simp_all add: example_dates(3,4) example_now_def)
  have a: "\<not> in_date_range (2024, 3, 6) (2024, 3, 31) example_entry"
    by (simp add: in_date_range_def p)
  have b: "in_date_range (2024, 3, 6) (2024, 3, 31) example_entry_B"
    by (simp add: in_date_range_def p)
  from search_by_date_range_spec [of "''2024-03-06''" "(2024, 3, 6)" "''2024-03-31''" "(2024, 3, 31)" ?m]
    search_by_date_range_spec [of "''2024-13-01''" "(2024, 3, 6)" "''2024-03-31''" "(2024, 3, 31)" ?m]
    c example_query_dates
  show ?thesis by (simp add: example_manager_simps a b)
qed

section \<open>Save, then load\<close>

text \<open>
  The record that \<^verbatim>\<open>to_dict\<close> writes has the key \<^verbatim>\<open>date\<close>, which is not a parameter
  of \<^verbatim>\<open>__init__\<close>: the constructor call of \<^verbatim>\<open>load_entries\<close> refuses every saved record.
\<close>

lemma JournalEntry_kwargs_to_dict:
  "JournalEntry_kwargs now (PDict (to_dict e)) = Inl TypeError"
  by (simp add: JournalEntry_kwargs_def to_dict_def init_params_def)

lemma build_entries_records:
  "es \<noteq> [] \<Longrightarrow> build_entries clk n (map (\<lambda>e. PDict (to_dict e)) es) = Inl TypeError"
  by (cases es) (simp_all add: JournalEntry_kwargs_to_dict)

lemma save_body_completes:
  assumes "save_body L m w = (w1, None)"
  obtains data c where "json_dumps L (records (entries m)) = Inr data"
    and "encrypt L (key m) (entropy w) data = Inr c"
    and "w1 = w\<lparr>entropy := Suc (entropy w),
                 files := (files w)(filename m \<mapsto> c, backup_file_of (filename m) \<mapsto> c)\<rparr>"
  using assms
  by (auto simp add: save_body_def write_file_def
        split: sum.splits prod.splits option.splits write_fault.splits)

text \<open>
  Claim C1 asks that saving a collection and loading it in a fresh store of the same
  user, under the same key, gives back equal records. What the code does instead:
  whenever the collection is not empty, the save completes, the data file is readable,
  and the libraries invert each other on what was saved (the token decrypts to the
  text, the text parses to the records), opening the store prints
  \<^verbatim>\<open>Error loading journal\<close> with a \<^verbatim>\<open>TypeError\<close> and the collection is empty, so its
  records are not those that were saved.
\<close>

theorem saved_entries_do_not_load:
  assumes nonempty: "entries m \<noteq> []"
    and store: "filename m = filename_of u"
    and key_file: "files w (key_file_of u) = Some (key m)" "\<not> read_denied w (key_file_of u)"
      "Fernet_accepts L (key m)"
    and readable: "\<not> read_denied w (filename_of u)"
    and saved: "save_body L m w = (w1, None)"
    and round_trip:
      "\<forall>data c. json_dumps L (records (entries m)) = Inr data
          \<and> encrypt L (key m) (entropy w) data = Inr c \<longrightarrow>
          c \<noteq> [] \<and> decrypt L (key m) c = Inr data \<and> json_loads L data = Inr (records (entries m))"
  shows "JournalManager_init L clk u w1 =
           (w1\<lparr>stdout := stdout w1 @ [Error_loading_journal TypeError]\<rparr>,
            Inr \<lparr>username = u, filename = filename_of u, key = key m, entries = []\<rparr>)
         \<and> map to_dict [] \<noteq> map to_dict (entries m)"
proof -
  from saved obtain data c where d: "json_dumps L (records (entries m)) = Inr data"
    and c: "encrypt L (key m) (entropy w) data = Inr c"
    and w1: "w1 = w\<lparr>entropy := Suc (entropy w),
                 files := (files w)(filename m \<mapsto> c, backup_file_of (filename m) \<mapsto> c)\<rparr>"
    by (rule save_body_completes)
  from round_trip d c have rt: "c \<noteq> []" "decrypt L (key m) c = Inr data"
    "json_loads L data = Inr (records (entries m))" by blast+
  have k: "get_or_create_key L u w1 = (w1, Inr (key m))"
    using key_file
    by (simp add: w1 store get_or_create_key_def path_exists_def read_file_def file_names_distinct)
  let ?m0 = "\<lparr>username = u, filename = filename_of u, key = key m, entries = []\<rparr>"
  have "load_body L clk ?m0 w1 = Inl TypeError"
    using readable rt nonempty
    by (simp add: w1 store load_body_def path_exists_def read_file_def file_names_distinct
          records_def build_entries_records)
  then have "load_entries L clk ?m0 w1 =
      (?m0, w1\<lparr>stdout := stdout w1 @ [Error_loading_journal TypeError]\<rparr>)"
    by (simp add: load_entries_def print_line_def)
  then show ?thesis using k key_file(3) nonempty by (simp add: JournalManager_init_def)
qed

theorem saved_entries_do_not_load_witness:
  "save_body example_library (example_manager [example_entry]) empty_data_world
     = (empty_data_world\<lparr>entropy := 1,
          files := (files empty_data_world)(filename_of ''u'' \<mapsto> example_key @ example_json,
             backup_file_of (filename_of ''u'') \<mapsto> example_key @ example_json)\<rparr>, None)
   \<and> JournalManager_init example_library example_clock ''u''
       (empty_data_world\<lparr>entropy := 1,
          files := (files empty_data_world)(filename_of ''u'' \<mapsto> example_key @ example_json,
             backup_file_of (filename_of ''u'') \<mapsto> example_key @ example_json)\<rparr>)
     = (empty_data_world\<lparr>entropy := 1,
          files := (files empty_data_world)(filename_of ''u'' \<mapsto> example_key @ example_json,
             backup_file_of (filename_of ''u'') \<mapsto> example_key @ example_json),
          stdout := [Error_loading_journal TypeError]\<rparr>,
        Inr (example_manager []))"
proof -
  let ?m = "example_manager [example_entry]"
  let ?w1 = "empty_data_world\<lparr>entropy := 1,
          files := (files empty_data_world)(filename_of ''u'' \<mapsto> example_key @ example_json,
             backup_file_of (filename_of ''u'') \<mapsto> example_key @ example_json)\<rparr>"
  have saved: "save_body example_library ?m empty_data_world = (?w1, None)"
    by (simp add: save_body_def example_library_simps example_manager_simps example_dumps_simps
          write_file_def empty_data_world_def empty_world_def)
  have h: "entries ?m \<noteq> []" "filename ?m = filename_of ''u''"
    "files empty_data_world (key_file_of ''u'') = Some (key ?m)"
    "\<not> read_denied empty_data_world (key_file_of ''u'')"
    "Fernet_accepts example_library (key ?m)"
    "\<not> read_denied empty_data_world (filename_of ''u'')"
    by (simp_all add: example_manager_simps empty_data_world_def empty_world_def
          file_names_distinct example_library_simps length_example_key)
  have rt: "\<forall>data c. json_dumps example_library (records (entries ?m)) = Inr data
          \<and> encrypt example_library (key ?m) (entropy empty_data_world) data = Inr c \<longrightarrow>
          c \<noteq> [] \<and> decrypt example_library (key ?m) c = Inr data
          \<and> json_loads example_library data = Inr (records (entries ?m))"
    by (auto simp add: example_library_simps example_manager_simps example_dumps_simps
          example_loads_simps example_key_def)
  have s: "stdout empty_data_world = []" by (simp add: empty_data_world_def empty_world_def)
  from saved_entries_do_not_load [OF h saved rt, of example_clock]
  have "JournalManager_init example_library example_clock ''u'' ?w1 =
      (?w1\<lparr>stdout := stdout ?w1 @ [Error_loading_journal TypeError]\<rparr>, Inr (example_manager []))"
    by (simp add: example_manager_def)
  with saved show ?thesis by (simp add: s)
qed

end
